theory Spec2Isabelle
  imports Complex_Main
begin

section \<open>The music theory engine: tables\<close>

text \<open>
  The engine of \<^verbatim>\<open>theory-engine.js\<close> is a class of pure methods over constant tables.
  Note names are JavaScript strings, modelled as \<^typ>\<open>string\<close>; the only character
  outside ASCII that the tables use is the degree sign U+00B0, written \<open>CHR 0xB0\<close>.
  Semitone counts, indices and octaves are integers small enough to be exact as
  JavaScript numbers, modelled as \<^typ>\<open>int\<close>. A parameter called \<^verbatim>\<open>root\<close> in the source
  is \<open>rootNote\<close> here, since \<open>root\<close> is a constant of analysis. An object literal
  used as a table is an association list in definition order, read on its own keys with
  \<^const>\<open>map_of\<close>.
\<close>

definition NOTE_NAMES :: "string list" where
  "NOTE_NAMES =
     [''C'', ''C#'', ''D'', ''D#'', ''E'', ''F'', ''F#'', ''G'', ''G#'', ''A'', ''A#'', ''B'']"

definition NOTE_NAMES_FLAT :: "string list" where
  "NOTE_NAMES_FLAT =
     [''C'', ''Db'', ''D'', ''Eb'', ''E'', ''F'', ''Gb'', ''G'', ''Ab'', ''A'', ''Bb'', ''B'']"

definition A4_MIDI_NUMBER :: int where
  "A4_MIDI_NUMBER = 69"

text \<open>
  The table \<^verbatim>\<open>INTERVALS\<close>. The field \<^verbatim>\<open>equalRatio\<close> is a decimal literal that no
  method reads; it is left out.
\<close>

record interval_data =
  iv_semitones :: int
  iv_justRatio :: string
  iv_name :: string
  iv_abbrev :: string
  iv_quality :: string

definition mk_interval :: "int \<Rightarrow> string \<Rightarrow> string \<Rightarrow> string \<Rightarrow> string \<Rightarrow> interval_data" where
  "mk_interval s j n a q =
     \<lparr>iv_semitones = s, iv_justRatio = j, iv_name = n, iv_abbrev = a, iv_quality = q\<rparr>"

definition INTERVALS :: "(string \<times> interval_data) list" where
  "INTERVALS =
     [(''unison'', mk_interval 0 ''1:1'' ''Unison'' ''P1'' ''perfect''),
      (''minorSecond'', mk_interval 1 ''16:15'' ''Minor 2nd'' ''m2'' ''dissonant''),
      (''majorSecond'', mk_interval 2 ''9:8'' ''Major 2nd'' ''M2'' ''dissonant''),
      (''minorThird'', mk_interval 3 ''6:5'' ''Minor 3rd'' ''m3'' ''consonant''),
      (''majorThird'', mk_interval 4 ''5:4'' ''Major 3rd'' ''M3'' ''consonant''),
      (''perfectFourth'', mk_interval 5 ''4:3'' ''Perfect 4th'' ''P4'' ''perfect''),
      (''tritone'', mk_interval 6 ''45:32'' ''Tritone'' ''TT'' ''dissonant''),
      (''perfectFifth'', mk_interval 7 ''3:2'' ''Perfect 5th'' ''P5'' ''perfect''),
      (''minorSixth'', mk_interval 8 ''8:5'' ''Minor 6th'' ''m6'' ''consonant''),
      (''majorSixth'', mk_interval 9 ''5:3'' ''Major 6th'' ''M6'' ''consonant''),
      (''minorSeventh'', mk_interval 10 ''9:5'' ''Minor 7th'' ''m7'' ''dissonant''),
      (''majorSeventh'', mk_interval 11 ''15:8'' ''Major 7th'' ''M7'' ''dissonant''),
      (''octave'', mk_interval 12 ''2:1'' ''Octave'' ''P8'' ''perfect'')]"

text \<open>The table \<^verbatim>\<open>SCALES\<close>; \<open>dq\<close> is the double quote inside a description.\<close>

record scale_data =
  sd_intervals :: "int list"
  sd_name :: string
  sd_description :: string

definition mk_scale :: "int list \<Rightarrow> string \<Rightarrow> string \<Rightarrow> scale_data" where
  "mk_scale is n d = \<lparr>sd_intervals = is, sd_name = n, sd_description = d\<rparr>"

definition dq :: string where
  "dq = [CHR 0x22]"

definition SCALES :: "(string \<times> scale_data) list" where
  "SCALES =
     [(''major'', mk_scale [0, 2, 4, 5, 7, 9, 11] ''Major (Ionian)''
         (''The '' @ dq @ ''happy'' @ dq @ '' scale. W-W-H-W-W-W-H pattern.'')),
      (''naturalMinor'', mk_scale [0, 2, 3, 5, 7, 8, 10] ''Natural Minor (Aeolian)''
         (''The '' @ dq @ ''sad'' @ dq @ '' scale. Relative minor of major.'')),
      (''harmonicMinor'', mk_scale [0, 2, 3, 5, 7, 8, 11] ''Harmonic Minor''
         ''Minor with raised 7th. Creates V7 chord.''),
      (''melodicMinor'', mk_scale [0, 2, 3, 5, 7, 9, 11] ''Melodic Minor''
         ''Minor with raised 6th and 7th (ascending).''),
      (''ionian'', mk_scale [0, 2, 4, 5, 7, 9, 11] ''Ionian''
         ''Mode I. Same as Major scale.''),
      (''dorian'', mk_scale [0, 2, 3, 5, 7, 9, 10] ''Dorian''
         ''Mode II. Minor with raised 6th. Jazz/funk favorite.''),
      (''phrygian'', mk_scale [0, 1, 3, 5, 7, 8, 10] ''Phrygian''
         ''Mode III. Spanish/flamenco sound. Flat 2nd.''),
      (''lydian'', mk_scale [0, 2, 4, 6, 7, 9, 11] ''Lydian''
         ''Mode IV. Dreamy, ethereal. Raised 4th (#4).''),
      (''mixolydian'', mk_scale [0, 2, 4, 5, 7, 9, 10] ''Mixolydian''
         ''Mode V. Dominant sound. Major with flat 7th.''),
      (''aeolian'', mk_scale [0, 2, 3, 5, 7, 8, 10] ''Aeolian''
         ''Mode VI. Same as Natural Minor.''),
      (''locrian'', mk_scale [0, 1, 3, 5, 6, 8, 10] ''Locrian''
         ''Mode VII. Diminished feel. Rarely used.''),
      (''majorPentatonic'', mk_scale [0, 2, 4, 7, 9] ''Major Pentatonic''
         (''Major without 4th and 7th. Universal '' @ dq @ ''safe'' @ dq @ '' scale.'')),
      (''minorPentatonic'', mk_scale [0, 3, 5, 7, 10] ''Minor Pentatonic''
         ''Minor without 2nd and 6th. Blues/rock foundation.''),
      (''blues'', mk_scale [0, 3, 5, 6, 7, 10] ''Blues Scale''
         ''Minor pentatonic + blue note (flat 5th).''),
      (''majorBlues'', mk_scale [0, 2, 3, 4, 7, 9] ''Major Blues''
         ''Major pentatonic + blue note (flat 3rd).''),
      (''chromatic'', mk_scale [0, 1, 2, 3, 4, 5, 6, 7, 8, 9, 10, 11] ''Chromatic''
         (''All 12 semitones. No '' @ dq @ ''wrong'' @ dq @ '' notes, no '' @ dq @ ''right''
            @ dq @ '' ones.'')),
      (''wholeNote'', mk_scale [0, 2, 4, 6, 8, 10] ''Whole Tone''
         ''All whole steps. Dreamy, ambiguous sound.''),
      (''diminished'', mk_scale [0, 2, 3, 5, 6, 8, 9, 11] ''Diminished (Half-Whole)''
         ''Alternating H-W pattern. Tension and mystery.'')]"

text \<open>The table \<^verbatim>\<open>CHORD_TYPES\<close>.\<close>

record chord_data =
  cd_intervals :: "int list"
  cd_symbol :: string
  cd_name :: string
  cd_formula :: string
  cd_quality :: string

definition mk_chord :: "int list \<Rightarrow> string \<Rightarrow> string \<Rightarrow> string \<Rightarrow> string \<Rightarrow> chord_data" where
  "mk_chord is s n f q =
     \<lparr>cd_intervals = is, cd_symbol = s, cd_name = n, cd_formula = f, cd_quality = q\<rparr>"

definition CHORD_TYPES :: "(string \<times> chord_data) list" where
  "CHORD_TYPES =
     [(''major'', mk_chord [0, 4, 7] '''' ''Major'' ''R-M3-P5'' ''consonant''),
      (''minor'', mk_chord [0, 3, 7] ''m'' ''Minor'' ''R-m3-P5'' ''consonant''),
      (''diminished'', mk_chord [0, 3, 6] ''dim'' ''Diminished'' ''R-m3-d5'' ''dissonant''),
      (''augmented'', mk_chord [0, 4, 8] ''aug'' ''Augmented'' ''R-M3-A5'' ''dissonant''),
      (''sus2'', mk_chord [0, 2, 7] ''sus2'' ''Suspended 2nd'' ''R-M2-P5'' ''open''),
      (''sus4'', mk_chord [0, 5, 7] ''sus4'' ''Suspended 4th'' ''R-P4-P5'' ''open''),
      (''major7'', mk_chord [0, 4, 7, 11] ''maj7'' ''Major 7th'' ''R-M3-P5-M7'' ''jazzy''),
      (''minor7'', mk_chord [0, 3, 7, 10] ''m7'' ''Minor 7th'' ''R-m3-P5-m7'' ''jazzy''),
      (''dominant7'', mk_chord [0, 4, 7, 10] ''7'' ''Dominant 7th'' ''R-M3-P5-m7'' ''tension''),
      (''diminished7'', mk_chord [0, 3, 6, 9] ''dim7'' ''Diminished 7th'' ''R-m3-d5-d7''
         ''tension''),
      (''halfDiminished'', mk_chord [0, 3, 6, 10] ''m7b5'' ''Half-Diminished'' ''R-m3-d5-m7''
         ''tension''),
      (''minorMajor7'', mk_chord [0, 3, 7, 11] ''mMaj7'' ''Minor-Major 7th'' ''R-m3-P5-M7''
         ''exotic''),
      (''augmented7'', mk_chord [0, 4, 8, 10] ''aug7'' ''Augmented 7th'' ''R-M3-A5-m7''
         ''exotic''),
      (''add9'', mk_chord [0, 4, 7, 14] ''add9'' ''Add 9'' ''R-M3-P5-M9'' ''bright''),
      (''minor9'', mk_chord [0, 3, 7, 10, 14] ''m9'' ''Minor 9th'' ''R-m3-P5-m7-M9'' ''smooth''),
      (''major9'', mk_chord [0, 4, 7, 11, 14] ''maj9'' ''Major 9th'' ''R-M3-P5-M7-M9'' ''lush'')]"

section \<open>Notes and frequencies\<close>

text \<open>
  JavaScript's \<^verbatim>\<open>%\<close> is the remainder of truncated division: its sign is the sign of
  the dividend.
\<close>

definition js_rem :: "int \<Rightarrow> int \<Rightarrow> int" where
  "js_rem a b = sgn a * (\<bar>a\<bar> mod \<bar>b\<bar>)"

text \<open>\<^verbatim>\<open>Array.prototype.indexOf\<close>: the first position of the element, or \<open>-1\<close>.\<close>

fun indexOf :: "'a list \<Rightarrow> 'a \<Rightarrow> int" where
  "indexOf [] x = - 1"
| "indexOf (y # ys) x =
     (if y = x then 0 else (let i = indexOf ys x in if i < 0 then - 1 else i + 1))"

definition flatToSharp :: "(string \<times> string) list" where
  "flatToSharp =
     [(''Db'', ''C#''), (''Eb'', ''D#''), (''Fb'', ''E''), (''Gb'', ''F#''), (''Ab'', ''G#''),
      (''Bb'', ''A#''), (''Cb'', ''B'')]"

text \<open>
  \<^verbatim>\<open>noteToIndex\<close>: \<^verbatim>\<open>flatToSharp[note] || note\<close>, then \<^verbatim>\<open>NOTE_NAMES.indexOf\<close>. Every value
  of the alias table is a non-empty string, so \<^verbatim>\<open>||\<close> takes the alias whenever there is
  one. There is no \<^verbatim>\<open>throw\<close> in the method: the result is a number.
\<close>

definition noteToIndex :: "string \<Rightarrow> int" where
  "noteToIndex note =
     (let normalized = (case map_of flatToSharp note of Some sharp \<Rightarrow> sharp | None \<Rightarrow> note)
      in indexOf NOTE_NAMES normalized)"

text \<open>
  \<^verbatim>\<open>indexToNote\<close>: the index is brought into \<open>0..11\<close> first, so the array read is always
  in range.
\<close>

definition indexToNote :: "int \<Rightarrow> bool \<Rightarrow> string" where
  "indexToNote index useFlats =
     (let normalized = js_rem (js_rem index 12 + 12) 12
      in if useFlats then NOTE_NAMES_FLAT ! nat normalized else NOTE_NAMES ! nat normalized)"

text \<open>
  \<^verbatim>\<open>noteToFrequency\<close> returns the double \<^verbatim>\<open>440 * Math.pow(2, (midiNote - 69) / 12)\<close>. The
  model keeps the value symbolic: \<open>EqualTempered n\<close> stands for \<open>440 * 2^(n/12)\<close>, with
  \<open>n = midiNote - 69\<close> computed as the code computes it.
\<close>

datatype frequency = EqualTempered int

definition noteToFrequency :: "string \<Rightarrow> int \<Rightarrow> frequency" where
  "noteToFrequency note octave =
     (let noteIndex = noteToIndex note;
          midiNote = (octave + 1) * 12 + noteIndex
      in EqualTempered (midiNote - A4_MIDI_NUMBER))"

text \<open>
  \<^verbatim>\<open>getInterval\<close>. \<^verbatim>\<open>wholeSteps\<close> is half the semitone count, a rational; the field
  \<^verbatim>\<open>frequencyRatio\<close> is the four-decimal rendering of \<open>2^(semitones/12)\<close>, kept symbolic
  as \<open>Fixed4RatioOf semitones\<close>.
\<close>

datatype ratio_text = Fixed4RatioOf int

record interval_result =
  gi_semitones :: int
  gi_halfSteps :: int
  gi_wholeSteps :: rat
  gi_frequencyRatio :: ratio_text
  gi_justRatio :: string
  gi_name :: string
  gi_quality :: string

fun decimal_nat :: "nat \<Rightarrow> string" where
  "decimal_nat n =
     (if n < 10 then [char_of (48 + n)] else decimal_nat (n div 10) @ [char_of (48 + n mod 10)])"

definition decimal :: "int \<Rightarrow> string" where
  "decimal i = (if i < 0 then ''-'' @ decimal_nat (nat (- i)) else decimal_nat (nat i))"

definition getInterval :: "string \<Rightarrow> string \<Rightarrow> interval_result" where
  "getInterval noteA noteB =
     (let indexA = noteToIndex noteA;
          indexB = noteToIndex noteB;
          semitones = js_rem ((indexB - indexA) + 12) 12;
          intervalData =
            map_option snd (find (\<lambda>(_, d). iv_semitones d = semitones) INTERVALS)
      in \<lparr>gi_semitones = semitones,
          gi_halfSteps = semitones,
          gi_wholeSteps = of_int semitones / 2,
          gi_frequencyRatio = Fixed4RatioOf semitones,
          gi_justRatio = (case intervalData of Some d \<Rightarrow> iv_justRatio d | None \<Rightarrow> ''N/A''),
          gi_name =
            (case intervalData of Some d \<Rightarrow> iv_name d
             | None \<Rightarrow> decimal semitones @ '' semitones''),
          gi_quality = (case intervalData of Some d \<Rightarrow> iv_quality d | None \<Rightarrow> ''unknown'')\<rparr>)"

section \<open>Scales and chords\<close>

record scale_result =
  sr_root :: string
  sr_type :: string
  sr_name :: string
  sr_notes :: "string list"
  sr_intervals :: "int list"
  sr_description :: string
  sr_noteIndices :: "int list"

text \<open>\<^verbatim>\<open>getScaleNotes\<close>: \<^verbatim>\<open>null\<close> (here \<open>None\<close>) for a scale type that is not a key of the table.\<close>

definition getScaleNotes :: "string \<Rightarrow> string \<Rightarrow> scale_result option" where
  "getScaleNotes rootNote scaleType =
     (case map_of SCALES scaleType of
        None \<Rightarrow> None
      | Some scale \<Rightarrow>
          (let rootIndex = noteToIndex rootNote;
               notes = map (\<lambda>interval. indexToNote (js_rem (rootIndex + interval) 12) False)
                         (sd_intervals scale)
           in Some \<lparr>sr_root = rootNote,
                    sr_type = scaleType,
                    sr_name = rootNote @ '' '' @ sd_name scale,
                    sr_notes = notes,
                    sr_intervals = sd_intervals scale,
                    sr_description = sd_description scale,
                    sr_noteIndices = map (\<lambda>i. js_rem (rootIndex + i) 12) (sd_intervals scale)\<rparr>))"

text \<open>
  \<^verbatim>\<open>isNoteInScale\<close>: \<^verbatim>\<open>scale?.notes.includes(note) || false\<close>. The query string is
  compared with the produced names as it is.
\<close>

definition isNoteInScale :: "string \<Rightarrow> string \<Rightarrow> string \<Rightarrow> bool" where
  "isNoteInScale note rootNote scaleType =
     (case getScaleNotes rootNote scaleType of
        None \<Rightarrow> False
      | Some scale \<Rightarrow> note \<in> set (sr_notes scale))"

record chord_tone =
  tn_note :: string
  tn_octave :: int
  tn_frequency :: frequency

record chord_result =
  ch_root :: string
  ch_type :: string
  ch_name :: string
  ch_fullName :: string
  ch_notes :: "string list"
  ch_intervals :: "int list"
  ch_formula :: string
  ch_quality :: string
  ch_frequencies :: "chord_tone list"

text \<open>
  \<^verbatim>\<open>buildChord\<close>. The callback of \<^verbatim>\<open>notes.map((n, i) => ...)\<close> reads
  \<^verbatim>\<open>chord.intervals[i]\<close>; \<^verbatim>\<open>notes\<close> has one name per interval, so the model pairs them
  with \<^const>\<open>zip\<close>. \<^verbatim>\<open>Math.floor\<close> of the quotient by 12 is integer division, which
  rounds down in HOL as well.
\<close>

definition buildChord :: "string \<Rightarrow> string \<Rightarrow> chord_result option" where
  "buildChord rootNote chordType =
     (case map_of CHORD_TYPES chordType of
        None \<Rightarrow> None
      | Some chord \<Rightarrow>
          (let rootIndex = noteToIndex rootNote;
               notes = map (\<lambda>interval. indexToNote (js_rem (rootIndex + interval) 12) False)
                         (cd_intervals chord)
           in Some \<lparr>ch_root = rootNote,
                    ch_type = chordType,
                    ch_name = rootNote @ cd_symbol chord,
                    ch_fullName = rootNote @ '' '' @ cd_name chord,
                    ch_notes = notes,
                    ch_intervals = cd_intervals chord,
                    ch_formula = cd_formula chord,
                    ch_quality = cd_quality chord,
                    ch_frequencies =
                      map (\<lambda>(n, interval).
                             \<lparr>tn_note = n,
                              tn_octave = 4 + (rootIndex + interval) div 12,
                              tn_frequency =
                                noteToFrequency n (4 + (rootIndex + interval) div 12)\<rparr>)
                          (zip notes (cd_intervals chord))\<rparr>))"

section \<open>Diatonic harmony\<close>




text \<open>
  Reading a property of \<^verbatim>\<open>null\<close> throws a \<^verbatim>\<open>TypeError\<close>; an array read out of range
  is \<^verbatim>\<open>undefined\<close>, here \<open>None\<close>.
\<close>

datatype js_error = TypeError

definition array_at :: "'a list \<Rightarrow> nat \<Rightarrow> 'a option" where
  "array_at xs i = (if i < length xs then Some (xs ! i) else None)"



section \<open>Chord identification\<close>

text \<open>
  The callers pass note names, numbers (frequencies) or objects with a \<^verbatim>\<open>note\<close> field.
  \<open>'f\<close> is the type of the numbers. What reaches \<^verbatim>\<open>noteToIndex\<close> is a string,
  \<^verbatim>\<open>undefined\<close> or an object; for the last two the alias table has no own key and
  \<^verbatim>\<open>indexOf\<close> finds nothing, so the index is \<open>-1\<close>.
\<close>

datatype 'f note_input = NoteName string | NoteNumber 'f | NoteObject string

datatype js_value = JString string | JUndefined | JObject

definition noteToIndexOf :: "js_value \<Rightarrow> int" where
  "noteToIndexOf v = (case v of JString s \<Rightarrow> noteToIndex s | _ \<Rightarrow> - 1)"

text \<open>\<^verbatim>\<open>[...new Set(xs)]\<close>: the distinct elements in the order of their first occurrence.\<close>

definition uniqueInOrder :: "'a list \<Rightarrow> 'a list" where
  "uniqueInOrder xs = foldl (\<lambda>acc x. if x \<in> set acc then acc else acc @ [x]) [] xs"

definition canonicalNotes :: "js_value list \<Rightarrow> string list" where
  "canonicalNotes noteNames =
     uniqueInOrder (map (\<lambda>n. indexToNote (noteToIndexOf n) False) noteNames)"

datatype chord_identification =
    IdNull
  | IdChord "chord_result option" rat
  | IdUnknown "string list" string rat

text \<open>
  The sorted semitone offsets of all unique notes from one candidate root, and the two
  loops of \<^verbatim>\<open>identifyChord\<close>: the inner one over \<^verbatim>\<open>Object.entries(CHORD_TYPES)\<close>, the
  outer one over \<^verbatim>\<open>uniqueNotes\<close>. Two arrays of integers have the same
  \<^verbatim>\<open>JSON.stringify\<close> exactly when they are equal.
\<close>

definition intervalsFrom :: "string list \<Rightarrow> string \<Rightarrow> int list" where
  "intervalsFrom uniqueNotes potentialRoot =
     (let rootIndex = noteToIndex potentialRoot
      in sort (map (\<lambda>n. js_rem ((noteToIndex n - rootIndex) + 12) 12) uniqueNotes))"

fun matchChordType :: "int list \<Rightarrow> (string \<times> chord_data) list \<Rightarrow> string option" where
  "matchChordType intervals [] = None"
| "matchChordType intervals ((type, data) # rest) =
     (if intervals = sort (cd_intervals data) then Some type
      else matchChordType intervals rest)"

fun tryRoots :: "string list \<Rightarrow> string list \<Rightarrow> (string \<times> string) option" where
  "tryRoots uniqueNotes [] = None"
| "tryRoots uniqueNotes (potentialRoot # rest) =
     (case matchChordType (intervalsFrom uniqueNotes potentialRoot) CHORD_TYPES of
        Some type \<Rightarrow> Some (potentialRoot, type)
      | None \<Rightarrow> tryRoots uniqueNotes rest)"

text \<open>
  The callback \<^verbatim>\<open>n => typeof n === 'string' ? n : n.note\<close>: a number has no property
  \<^verbatim>\<open>note\<close>.
\<close>

definition identifyChord_noteName :: "'f note_input \<Rightarrow> js_value" where
  "identifyChord_noteName n =
     (case n of NoteName s \<Rightarrow> JString s | NoteNumber _ \<Rightarrow> JUndefined | NoteObject s \<Rightarrow> JString s)"

definition identifyChord :: "'f note_input list \<Rightarrow> chord_identification" where
  "identifyChord notes =
     (let noteNames = map identifyChord_noteName notes;
          uniqueNotes = canonicalNotes noteNames
      in if length uniqueNotes < 2 then IdNull
         else (case tryRoots uniqueNotes uniqueNotes of
                 Some (potentialRoot, type) \<Rightarrow> IdChord (buildChord potentialRoot type) 1
               | None \<Rightarrow> IdUnknown uniqueNotes ''Unknown'' 0))"

section \<open>Key detection\<close>

text \<open>
  \<^verbatim>\<open>frequencyToNote\<close> rounds \<^verbatim>\<open>12 * Math.log2(freq / 440) + 69\<close> in double arithmetic.
  That part is the parameter \<open>roundedMidi\<close>, which gives \<open>None\<close> when the rounded value
  is not a finite number; the remainder by 12 is then \<^verbatim>\<open>NaN\<close> and the array read gives
  \<^verbatim>\<open>undefined\<close>.
\<close>

definition frequencyToNote :: "('f \<Rightarrow> int option) \<Rightarrow> 'f \<Rightarrow> string option" where
  "frequencyToNote roundedMidi freq =
     (case roundedMidi freq of
        None \<Rightarrow> None
      | Some midiNote \<Rightarrow> Some (indexToNote (js_rem midiNote 12) False))"

definition truthy :: "js_value \<Rightarrow> bool" where
  "truthy v = (case v of JString s \<Rightarrow> s \<noteq> [] | JUndefined \<Rightarrow> False | JObject \<Rightarrow> True)"

record key_candidate =
  kc_key :: string
  kc_root :: string
  kc_scale :: string
  kc_score :: rat
  kc_matchedNotes :: int
  kc_totalNotes :: int

text \<open>
  The body of the inner loop of \<^verbatim>\<open>detectKey\<close>. The score is a quotient of two small
  integers; the model keeps it exact. All scores of one call have the same denominator,
  so the doubles of the source compare as these rationals do.
\<close>

definition scoreCandidate ::
  "string list \<Rightarrow> string \<Rightarrow> string \<Rightarrow> scale_result \<Rightarrow> key_candidate list" where
  "scoreCandidate uniqueNotes rootNote scaleType scale =
     (let inScale = int (length (filter (\<lambda>n. n \<in> set (sr_notes scale)) uniqueNotes));
          outOfScale = int (length uniqueNotes) - inScale;
          score = of_int (inScale - outOfScale * 2) / of_int (int (length uniqueNotes))
      in if score > 0
         then [\<lparr>kc_key = rootNote @ '' '' @ sr_name scale,
                kc_root = rootNote,
                kc_scale = scaleType,
                kc_score = max 0 score,
                kc_matchedNotes = inScale,
                kc_totalNotes = int (length uniqueNotes)\<rparr>]
         else [])"

definition detectKey_scaleTypes :: "string list" where
  "detectKey_scaleTypes = [''major'', ''naturalMinor'', ''dorian'', ''mixolydian'']"

fun scanScaleTypes ::
  "string list \<Rightarrow> string \<Rightarrow> string list \<Rightarrow> key_candidate list
     \<Rightarrow> js_error + key_candidate list" where
  "scanScaleTypes uniqueNotes rootNote [] results = Inr results"
| "scanScaleTypes uniqueNotes rootNote (scaleType # rest) results =
     (case getScaleNotes rootNote scaleType of
        None \<Rightarrow> Inl TypeError
      | Some scale \<Rightarrow>
          scanScaleTypes uniqueNotes rootNote rest
            (results @ scoreCandidate uniqueNotes rootNote scaleType scale))"

fun scanRoots ::
  "string list \<Rightarrow> string list \<Rightarrow> key_candidate list \<Rightarrow> js_error + key_candidate list" where
  "scanRoots uniqueNotes [] results = Inr results"
| "scanRoots uniqueNotes (rootNote # rest) results =
     (case scanScaleTypes uniqueNotes rootNote detectKey_scaleTypes results of
        Inl e \<Rightarrow> Inl e
      | Inr results' \<Rightarrow> scanRoots uniqueNotes rest results')"

text \<open>
  \<^verbatim>\<open>detectKey\<close>. The first callback gives the string itself, the note of a number,
  and \<^verbatim>\<open>n.note || n\<close> otherwise: the object itself when its \<^verbatim>\<open>note\<close> is empty.
  \<^verbatim>\<open>filter(Boolean)\<close> keeps the values that are not falsy. \<^verbatim>\<open>Array.prototype.sort\<close> is
  stable; with the comparator \<^verbatim>\<open>b.score - a.score\<close> it is the stable sort by descending
  score.
\<close>

definition detectKey_noteName :: "('f \<Rightarrow> int option) \<Rightarrow> 'f note_input \<Rightarrow> js_value" where
  "detectKey_noteName roundedMidi n =
     (case n of
        NoteName s \<Rightarrow> JString s
      | NoteNumber f \<Rightarrow>
          (case frequencyToNote roundedMidi f of Some s \<Rightarrow> JString s | None \<Rightarrow> JUndefined)
      | NoteObject s \<Rightarrow> (if s = [] then JObject else JString s))"

definition detectKey ::
  "('f \<Rightarrow> int option) \<Rightarrow> 'f note_input list \<Rightarrow> js_error + key_candidate list" where
  "detectKey roundedMidi notes =
     (let noteNames = filter truthy (map (detectKey_noteName roundedMidi) notes);
          uniqueNotes = canonicalNotes noteNames
      in if length uniqueNotes < 2 then Inr []
         else (case scanRoots uniqueNotes NOTE_NAMES [] of
                 Inl e \<Rightarrow> Inl e
               | Inr results \<Rightarrow> Inr (take 5 (sort_key (\<lambda>r. - kc_score r) results))))"

section \<open>The visualizer's chord analyzer\<close>

text \<open>
  \<^verbatim>\<open>ChordAnalyzer.identify\<close> receives a reference to the caller's array and sorts that
  array. The model has a store: a list of objects, the address of an object being its
  position, and allocation appending at the end. Frequencies of sounding oscillators
  are positive finite doubles, which are rationals; the two computations in double
  arithmetic are parameters: \<open>roundedSemitones f r\<close> for
  \<^verbatim>\<open>Math.round(12 * Math.log2(f / r))\<close> and \<open>toFixed2 f r\<close> for \<^verbatim>\<open>(f / r).toFixed(2)\<close>.
\<close>

record active_note =
  nt_freq :: rat
  nt_note :: string

record chord_analysis =
  ca_root :: string
  ca_chordName :: string
  ca_semitones :: "int list"
  ca_ratios :: "string list"
  ca_stability :: string

datatype heap_object = NoteArray "active_note list" | Analysis chord_analysis

type_synonym heap = "heap_object list"

datatype js_ref = Null | Ref nat

definition analyzer_intervals :: "(int \<times> string) list" where
  "analyzer_intervals =
     [(3, ''Minor Third''), (4, ''Major Third''), (5, ''Perfect Fourth''),
      (7, ''Perfect Fifth''), (12, ''Octave'')]"

definition analyzer_chords :: "(string \<times> string) list" where
  "analyzer_chords =
     [(''0-4-7'', ''Major Triad''), (''0-3-7'', ''Minor Triad''), (''0-4-7-11'', ''Major 7th''),
      (''0-3-7-10'', ''Minor 7th''), (''0-4-7-10'', ''Dominant 7th''), (''0-3-6'', ''Diminished''),
      (''0-4-8'', ''Augmented'')]"

fun join :: "string \<Rightarrow> string list \<Rightarrow> string" where
  "join sep [] = []"
| "join sep [x] = x"
| "join sep (x # y # ys) = x @ sep @ join sep (y # ys)"

definition identify ::
  "(rat \<Rightarrow> rat \<Rightarrow> int) \<Rightarrow> (rat \<Rightarrow> rat \<Rightarrow> string) \<Rightarrow> heap \<Rightarrow> nat
     \<Rightarrow> js_error + (js_ref \<times> heap)" where
  "identify roundedSemitones toFixed2 h activeNotes =
     (case array_at h activeNotes of
        Some (NoteArray elems) \<Rightarrow>
          (if length elems < 2 then Inr (Null, h)
           else
             (let sorted = sort_key nt_freq elems;
                  h1 = h[activeNotes := NoteArray sorted]
              in case sorted of
                   [] \<Rightarrow> Inl TypeError
                 | rootN # _ \<Rightarrow>
                     (let semitones =
                            map (\<lambda>note. roundedSemitones (nt_freq note) (nt_freq rootN)) sorted;
                          uniqueSemitones = uniqueInOrder semitones;
                          key = join ''-'' (map decimal uniqueSemitones);
                          chordName =
                            (case map_of analyzer_chords key of
                               Some c \<Rightarrow> Some c
                             | None \<Rightarrow>
                                 (if length uniqueSemitones = 2
                                  then (case map_of analyzer_intervals (uniqueSemitones ! 1) of
                                          Some i \<Rightarrow> Some i
                                        | None \<Rightarrow> Some ''Interval'')
                                  else None));
                          ratios = map (\<lambda>note. toFixed2 (nt_freq note) (nt_freq rootN)) sorted;
                          stability =
                            (if \<exists>s \<in> set uniqueSemitones. js_rem s 12 \<in> set [1, 2, 6, 10, 11]
                             then ''Dissonant'' else ''Consonant'');
                          result =
                            \<lparr>ca_root = nt_note rootN,
                             ca_chordName = (case chordName of Some c \<Rightarrow> c | None \<Rightarrow> ''Unknown''),
                             ca_semitones = uniqueSemitones,
                             ca_ratios = ratios,
                             ca_stability = stability\<rparr>
                      in Inr (Ref (length h1), h1 @ [Analysis result]))))
      | _ \<Rightarrow> Inl TypeError)"

section \<open>Vocabulary of the properties\<close>


text \<open>
  An exact match of a candidate root with a chord template, and the first exact match
  when the roots are tried in a given order, with the chord types in catalog order for
  each root.
\<close>

definition exactMatch :: "string list \<Rightarrow> string \<Rightarrow> chord_data \<Rightarrow> bool" where
  "exactMatch uniqueNotes rootNote data =
     (intervalsFrom uniqueNotes rootNote = sort (cd_intervals data))"

definition firstExactMatch :: "string list \<Rightarrow> string list \<Rightarrow> (string \<times> string) option" where
  "firstExactMatch roots uniqueNotes =
     map_option (\<lambda>(r, t, d). (r, t))
       (find (\<lambda>(r, t, d). exactMatch uniqueNotes r d) (List.product roots CHORD_TYPES))"

text \<open>The notes of an input in the order of \<^verbatim>\<open>NOTE_NAMES\<close>.\<close>

definition canonicalOrder :: "string list \<Rightarrow> string list" where
  "canonicalOrder uniqueNotes = filter (\<lambda>n. n \<in> set uniqueNotes) NOTE_NAMES"

text \<open>
  The 48 candidates of key detection, the entries that one candidate adds to the results
  and the candidate that an entry reports; then the score of a candidate in the words of
  the specification: matched notes minus twice the unmatched notes, over all unique
  notes.
\<close>

definition detectKey_candidates :: "(string \<times> string) list" where
  "detectKey_candidates = List.product NOTE_NAMES detectKey_scaleTypes"

definition candidateEntries :: "string list \<Rightarrow> string \<times> string \<Rightarrow> key_candidate list" where
  "candidateEntries uniqueNotes c =
     (case getScaleNotes (fst c) (snd c) of
        None \<Rightarrow> []
      | Some scale \<Rightarrow> scoreCandidate uniqueNotes (fst c) (snd c) scale)"

definition candidateOf :: "key_candidate \<Rightarrow> string \<times> string" where
  "candidateOf k = (kc_root k, kc_scale k)"

definition candidateScore :: "string list \<Rightarrow> string \<Rightarrow> string \<Rightarrow> rat" where
  "candidateScore uniqueNotes rootNote scaleType =
     (case getScaleNotes rootNote scaleType of
        None \<Rightarrow> 0
      | Some scale \<Rightarrow>
          (let matchedCount = length (filter (\<lambda>n. n \<in> set (sr_notes scale)) uniqueNotes);
               unmatchedCount = length (filter (\<lambda>n. n \<notin> set (sr_notes scale)) uniqueNotes)
           in (of_nat matchedCount - of_nat unmatchedCount * 2) / of_nat (length uniqueNotes)))"

section \<open>Properties of the note conversions\<close>


lemma indexOf_bounds: "- 1 \<le> indexOf xs x \<and> indexOf xs x < int (length xs)"
  by (induction xs) (auto simp: Let_def)


lemma noteToIndex_bounds: "- 1 \<le> noteToIndex nm \<and> noteToIndex nm \<le> 11"
proof -
  obtain x where x: "noteToIndex nm = indexOf NOTE_NAMES x"
    by (simp add: noteToIndex_def)
  have "length NOTE_NAMES = 12" by (simp add: NOTE_NAMES_def)
  with indexOf_bounds [of NOTE_NAMES x] show ?thesis
    unfolding x by simp
qed


lemma js_rem_nonneg: "0 \<le> a \<Longrightarrow> 0 < b \<Longrightarrow> js_rem a b = a mod b"
  by (cases "a = 0") (simp_all add: js_rem_def)




text \<open>
  Claim C6. For all note names \<open>a\<close> and \<open>b\<close>, valid or not, the semitone count of
  \<^verbatim>\<open>getInterval(a, b)\<close> lies between 0 and 11 and is \<open>((index b - index a) + 12) mod 12\<close>;
  from a note to itself it is 0, named \<^verbatim>\<open>Unison\<close>, so the octave is never reported.
\<close>

theorem getInterval_semitones:
  "0 \<le> gi_semitones (getInterval a b) \<and> gi_semitones (getInterval a b) \<le> 11 \<and>
   gi_semitones (getInterval a b) = ((noteToIndex b - noteToIndex a) + 12) mod 12 \<and>
   gi_semitones (getInterval a a) = 0 \<and> gi_name (getInterval a a) = ''Unison''"
proof -
  have s: "gi_semitones (getInterval x y) = js_rem ((noteToIndex y - noteToIndex x) + 12) 12"
    for x y by (simp add: getInterval_def Let_def)
  have nn: "0 \<le> (noteToIndex b - noteToIndex a) + 12"
    using noteToIndex_bounds [of a] noteToIndex_bounds [of b] by linarith
  have m: "gi_semitones (getInterval a b) = ((noteToIndex b - noteToIndex a) + 12) mod 12"
    unfolding s using nn by (simp add: js_rem_nonneg)
  have z: "gi_semitones (getInterval a a) = 0"
    unfolding s by (simp add: js_rem_def)
  have u: "gi_name (getInterval a a) = ''Unison''"
    by (simp add: getInterval_def Let_def js_rem_def INTERVALS_def mk_interval_def)
  from m z u show ?thesis by simp
qed

section \<open>Properties of scales and chords\<close>

lemma map_zip_same: "map f (zip (map g xs) xs) = map (\<lambda>x. f (g x, x)) xs"
  by (induction xs) simp_all

text \<open>
  Claim C1, as the code has it. For every root and every registered chord type, the
  octave of each chord tone is \<open>4 + floor((rootIndex + offset) / 12)\<close>, where
  \<open>rootIndex\<close> is the index of the root and \<open>offset\<close> the tone's template offset. For a
  root of index 0 this is \<open>4 + floor(offset / 12)\<close>.
\<close>

theorem buildChord_octaves:
  assumes "map_of CHORD_TYPES chordType = Some chord"
  shows "\<exists>c. buildChord rootNote chordType = Some c \<and>
           map tn_octave (ch_frequencies c) =
             map (\<lambda>offset. 4 + (noteToIndex rootNote + offset) div 12) (cd_intervals chord) \<and>
           (noteToIndex rootNote = 0 \<longrightarrow>
              map tn_octave (ch_frequencies c) =
                map (\<lambda>offset. 4 + offset div 12) (cd_intervals chord))"
  using assms by (simp add: buildChord_def Let_def map_zip_same)

text \<open>The theorem at the chord \<^verbatim>\<open>Cadd9\<close>, whose ninth lies an octave up.\<close>

theorem buildChord_octaves_witness:
  "map_of CHORD_TYPES ''add9'' =
     Some (mk_chord [0, 4, 7, 14] ''add9'' ''Add 9'' ''R-M3-P5-M9'' ''bright'') \<and>
   noteToIndex ''C'' = 0 \<and>
   (\<exists>c. buildChord ''C'' ''add9'' = Some c \<and> map tn_octave (ch_frequencies c) = [4, 4, 4, 5])"
proof -
  have h: "map_of CHORD_TYPES ''add9'' =
             Some (mk_chord [0, 4, 7, 14] ''add9'' ''Add 9'' ''R-M3-P5-M9'' ''bright'')"
    by (simp add: CHORD_TYPES_def)
  have z: "noteToIndex ''C'' = 0"
    by (simp add: noteToIndex_def flatToSharp_def NOTE_NAMES_def)
  from buildChord_octaves [OF h, of "''C''"] z show ?thesis
    using h by (auto simp: mk_chord_def)
qed

text \<open>
  Claim C1 as stated fails at the chord B major: its offsets 0, 4 and 7 are all below
  12, and the tones are placed in the octaves 4, 5 and 5.
\<close>

theorem buildChord_octave_counterexample:
  "map_option (\<lambda>c. (ch_intervals c, map tn_octave (ch_frequencies c))) (buildChord ''B'' ''major'')
     = Some ([0, 4, 7], [4, 5, 5]) \<and>
   map (\<lambda>offset. 4 + offset div 12) [0, 4, 7 :: int] = [4, 4, 4]"
  by code_simp

text \<open>
  Claim C2 at the query \<^verbatim>\<open>Bb\<close> in F major. The scale's names contain \<^verbatim>\<open>A#\<close>, which has
  the index of \<^verbatim>\<open>Bb\<close>; the sharp query is found and the flat query is not.
\<close>

theorem isNoteInScale_flat_query:
  "isNoteInScale ''Bb'' ''F'' ''major'' = False \<and> isNoteInScale ''A#'' ''F'' ''major'' = True \<and>
   noteToIndex ''Bb'' = noteToIndex ''A#'' \<and>
   map_option sr_notes (getScaleNotes ''F'' ''major'') =
     Some [''F'', ''G'', ''A'', ''A#'', ''C'', ''D'', ''E'']"
  by code_simp

section \<open>Properties of the diatonic chords\<close>


lemma buildChord_registered:
  "t \<in> fst ` set CHORD_TYPES \<Longrightarrow> \<exists>c. buildChord r t = Some c"
proof -
  assume "t \<in> fst ` set CHORD_TYPES"
  then have "map_of CHORD_TYPES t \<noteq> None"
    by (simp add: map_of_eq_None_iff)
  then show ?thesis
    by (auto simp: buildChord_def Let_def)
qed









section \<open>Properties of chord identification\<close>

lemma find_append_cases:
  "find P (xs @ ys) = (case find P xs of None \<Rightarrow> find P ys | Some x \<Rightarrow> Some x)"
  by (induction xs) simp_all

lemma matchChordType_find:
  "matchChordType iv tbl = map_option fst (find (\<lambda>(t, d). iv = sort (cd_intervals d)) tbl)"
  by (induction tbl) auto

lemma find_map_Pair:
  "find (\<lambda>(r, t, d). Q r d) (map (Pair r0) tbl) =
     map_option (Pair r0) (find (\<lambda>(t, d). Q r0 d) tbl)"
  by (induction tbl) auto

lemma tryRoots_firstExactMatch: "tryRoots u roots = firstExactMatch roots u"
proof (induction roots)
  case Nil
  show ?case by (simp add: firstExactMatch_def)
next
  case (Cons r rs)
  show ?case
  proof (cases "find (\<lambda>(t, d). exactMatch u r d) CHORD_TYPES")
    case None
    then show ?thesis
      using Cons.IH
      by (simp add: firstExactMatch_def find_append_cases find_map_Pair matchChordType_find
          exactMatch_def)
  next
    case (Some td)
    then show ?thesis
      by (cases td)
        (simp add: firstExactMatch_def find_append_cases find_map_Pair matchChordType_find
          exactMatch_def)
  qed
qed

lemma find_in_set: "find P xs = Some x \<Longrightarrow> x \<in> set xs"
  by (induction xs) (auto split: if_splits)

lemma firstExactMatch_registered:
  assumes "firstExactMatch roots u = Some (r, t)"
  shows "\<exists>c. buildChord r t = Some c \<and> ch_root c = r \<and> ch_type c = t"
proof -
  from assms obtain d where "find (\<lambda>(r, t, d). exactMatch u r d) (List.product roots CHORD_TYPES)
      = Some (r, t, d)"
    by (auto simp: firstExactMatch_def)
  then have "(r, t, d) \<in> set (List.product roots CHORD_TYPES)"
    by (rule find_in_set)
  then have "t \<in> fst ` set CHORD_TYPES"
    by force
  from buildChord_registered [OF this, of r] obtain c where c: "buildChord r t = Some c" ..
  then have "ch_root c = r \<and> ch_type c = t"
    by (auto simp: buildChord_def Let_def split: option.splits)
  with c show ?thesis by simp
qed

lemma firstExactMatch_none:
  assumes "\<forall>r \<in> set roots. \<forall>(t, d) \<in> set CHORD_TYPES. \<not> exactMatch u r d"
  shows "firstExactMatch roots u = None"
  using assms by (auto simp: firstExactMatch_def find_None_iff)

text \<open>
  Claim C3, as the code has it. \<^verbatim>\<open>identifyChord\<close> returns the first exact match when
  the candidate roots are tried in the order of the unique notes, that is the order in
  which the notes were supplied, with the chord types in catalog order for each root;
  that match is returned as the built chord with confidence 1.
\<close>

theorem identifyChord_first_match:
  "identifyChord notes =
     (let u = canonicalNotes (map identifyChord_noteName notes)
      in if length u < 2 then IdNull
         else (case firstExactMatch u u of
                 Some (r, t) \<Rightarrow> IdChord (buildChord r t) 1
               | None \<Rightarrow> IdUnknown u ''Unknown'' 0)) \<and>
   (firstExactMatch u u = Some (r, t) \<longrightarrow>
      (\<exists>c. buildChord r t = Some c \<and> ch_root c = r \<and> ch_type c = t))"
  by (simp add: identifyChord_def Let_def tryRoots_firstExactMatch firstExactMatch_registered)

text \<open>The theorem at the notes G, C, D: the first match is G with \<^verbatim>\<open>sus4\<close>.\<close>

theorem identifyChord_first_match_witness:
  "firstExactMatch [''G'', ''C'', ''D''] [''G'', ''C'', ''D''] = Some (''G'', ''sus4'') \<and>
   (\<exists>c. identifyChord [NoteName ''G'', NoteName ''C'', NoteName ''D'' :: rat note_input]
           = IdChord (Some c) 1 \<and> ch_root c = ''G'' \<and> ch_type c = ''sus4'')"
proof -
  have m: "firstExactMatch [''G'', ''C'', ''D''] [''G'', ''C'', ''D''] = Some (''G'', ''sus4'')"
    by code_simp
  have u: "canonicalNotes (map identifyChord_noteName
      [NoteName ''G'', NoteName ''C'', NoteName ''D'' :: rat note_input]) = [''G'', ''C'', ''D'']"
    by code_simp
  from identifyChord_first_match
    [of "[NoteName ''G'', NoteName ''C'', NoteName ''D'' :: rat note_input]"
      "[''G'', ''C'', ''D'']" "''G''" "''sus4''"] m u
  show ?thesis by auto
qed

text \<open>
  Claim C3 as stated fails at the notes G, C, D: in the order of \<^verbatim>\<open>NOTE_NAMES\<close> the
  first exact match is C with \<^verbatim>\<open>sus2\<close>, and the result is \<^verbatim>\<open>Gsus4\<close>.
\<close>

theorem identifyChord_canonical_order_counterexample:
  "firstExactMatch (canonicalOrder [''G'', ''C'', ''D'']) [''G'', ''C'', ''D'']
     = Some (''C'', ''sus2'') \<and>
   identifyChord [NoteName ''G'', NoteName ''C'', NoteName ''D'' :: rat note_input]
     = IdChord (buildChord ''G'' ''sus4'') 1 \<and>
   map_option ch_name (buildChord ''G'' ''sus4'') = Some ''Gsus4''"
  by code_simp

text \<open>
  Claim C5, as the code has it. \<^verbatim>\<open>identifyChord\<close> has no failing branch. With fewer
  than two unique pitch classes it returns \<^verbatim>\<open>null\<close>; with two or more and no root and
  template matching exactly, it returns the object with the unique notes, the name
  \<^verbatim>\<open>Unknown\<close> and confidence 0.
\<close>

theorem identifyChord_no_match:
  "(let u = canonicalNotes (map identifyChord_noteName notes)
    in (length u < 2 \<longrightarrow> identifyChord notes = IdNull) \<and>
       (2 \<le> length u \<and> (\<forall>r \<in> set u. \<forall>(t, d) \<in> set CHORD_TYPES. \<not> exactMatch u r d) \<longrightarrow>
          identifyChord notes = IdUnknown u ''Unknown'' 0))"
  by (simp add: identifyChord_def Let_def tryRoots_firstExactMatch firstExactMatch_none)

text \<open>
  The theorem at the notes C, E, which match no template, and at D flat with C sharp,
  which are one pitch class.
\<close>

theorem identifyChord_no_match_witness:
  "canonicalNotes (map identifyChord_noteName [NoteName ''C'', NoteObject ''E'' :: rat note_input])
     = [''C'', ''E''] \<and>
   list_all (\<lambda>r. list_all (\<lambda>(t, d). \<not> exactMatch [''C'', ''E''] r d) CHORD_TYPES) [''C'', ''E''] \<and>
   identifyChord [NoteName ''C'', NoteObject ''E'' :: rat note_input]
     = IdUnknown [''C'', ''E''] ''Unknown'' 0 \<and>
   length (canonicalNotes (map identifyChord_noteName [NoteName ''Db'', NoteName ''C#'' :: rat note_input])) < 2 \<and>
   identifyChord [NoteName ''Db'', NoteName ''C#'' :: rat note_input] = IdNull"
proof -
  have u: "canonicalNotes (map identifyChord_noteName
      [NoteName ''C'', NoteObject ''E'' :: rat note_input]) = [''C'', ''E'']"
    by code_simp
  have n: "list_all (\<lambda>r. list_all (\<lambda>(t, d). \<not> exactMatch [''C'', ''E''] r d) CHORD_TYPES)
      [''C'', ''E'']"
    by code_simp
  have v: "canonicalNotes (map identifyChord_noteName
      [NoteName ''Db'', NoteName ''C#'' :: rat note_input]) = [''C#'']"
    by code_simp
  from identifyChord_no_match [of "[NoteName ''C'', NoteObject ''E'' :: rat note_input]"] u n
  have a: "identifyChord [NoteName ''C'', NoteObject ''E'' :: rat note_input]
     = IdUnknown [''C'', ''E''] ''Unknown'' 0"
    by (simp add: Let_def list_all_iff)
  from identifyChord_no_match [of "[NoteName ''Db'', NoteName ''C#'' :: rat note_input]"] v
  have b: "identifyChord [NoteName ''Db'', NoteName ''C#'' :: rat note_input] = IdNull"
    by (simp add: Let_def)
  from u n a b v show ?thesis by simp
qed

text \<open>
  Claim C5 as stated fails at a repeated C: the result is \<^verbatim>\<open>null\<close>, not the object named
  \<^verbatim>\<open>Unknown\<close>.
\<close>

theorem identifyChord_null_counterexample:
  "length (canonicalNotes (map identifyChord_noteName [NoteName ''C'', NoteName ''C'' :: rat note_input])) < 2 \<and>
   identifyChord [NoteName ''C'', NoteName ''C'' :: rat note_input] = IdNull \<and>
   identifyChord [NoteName ''C'', NoteName ''C'' :: rat note_input] \<noteq> IdUnknown [''C''] ''Unknown'' 0"
  by code_simp

section \<open>Properties of key detection\<close>

lemma scanScaleTypes_results:
  assumes "\<forall>st \<in> set sts. map_of SCALES st \<noteq> None"
  shows "scanScaleTypes u r sts acc =
           Inr (acc @ concat (map (\<lambda>st. candidateEntries u (r, st)) sts))"
  using assms
proof (induction sts arbitrary: acc)
  case Nil
  show ?case by simp
next
  case (Cons st sts)
  from Cons.prems obtain sd where "map_of SCALES st = Some sd" by auto
  then obtain scale where sc: "getScaleNotes r st = Some scale"
    by (auto simp: getScaleNotes_def Let_def)
  from Cons.prems have "\<forall>st \<in> set sts. map_of SCALES st \<noteq> None" by simp
  from Cons.IH [OF this] sc show ?case
    by (simp add: candidateEntries_def)
qed

lemma detectKey_scaleTypes_registered:
  "\<forall>st \<in> set detectKey_scaleTypes. map_of SCALES st \<noteq> None"
  by (simp add: detectKey_scaleTypes_def SCALES_def)

lemma scanRoots_results:
  "scanRoots u roots acc =
     Inr (acc @ concat (map (candidateEntries u) (List.product roots detectKey_scaleTypes)))"
proof (induction roots arbitrary: acc)
  case Nil
  show ?case by simp
next
  case (Cons r roots)
  have "map (candidateEntries u) (map (Pair r) detectKey_scaleTypes) =
      map (\<lambda>st. candidateEntries u (r, st)) detectKey_scaleTypes"
    by simp
  then show ?case
    using Cons.IH scanScaleTypes_results [OF detectKey_scaleTypes_registered, of u r acc]
    by (simp del: map_map)
qed

lemma candidates_registered:
  "c \<in> set detectKey_candidates \<Longrightarrow> \<exists>scale. getScaleNotes (fst c) (snd c) = Some scale"
proof -
  assume "c \<in> set detectKey_candidates"
  then have "snd c \<in> set detectKey_scaleTypes"
    by (auto simp: detectKey_candidates_def)
  with detectKey_scaleTypes_registered obtain sd where "map_of SCALES (snd c) = Some sd"
    by auto
  then show ?thesis by (simp add: getScaleNotes_def Let_def)
qed

lemma score_agrees:
  assumes "getScaleNotes r st = Some scale"
  shows "of_int (int (length (filter (\<lambda>n. n \<in> set (sr_notes scale)) u))
            - (int (length u) - int (length (filter (\<lambda>n. n \<in> set (sr_notes scale)) u))) * 2)
           / of_int (int (length u)) = candidateScore u r st"
proof -
  have "length (filter (\<lambda>n. n \<in> set (sr_notes scale)) u)
      + length (filter (\<lambda>n. n \<notin> set (sr_notes scale)) u) = length u"
    by (rule sum_length_filter_compl)
  then have "int (length u) - int (length (filter (\<lambda>n. n \<in> set (sr_notes scale)) u))
      = int (length (filter (\<lambda>n. n \<notin> set (sr_notes scale)) u))"
    by linarith
  then show ?thesis
    using assms by (simp add: candidateScore_def Let_def)
qed

lemma candidateEntries_cases:
  assumes "c \<in> set detectKey_candidates"
  shows "(0 < candidateScore u (fst c) (snd c) \<longrightarrow>
            (\<exists>k. candidateEntries u c = [k] \<and> candidateOf k = c \<and>
               kc_score k = candidateScore u (fst c) (snd c))) \<and>
         (\<not> 0 < candidateScore u (fst c) (snd c) \<longrightarrow> candidateEntries u c = [])"
proof -
  from candidates_registered [OF assms] obtain scale where
    sc: "getScaleNotes (fst c) (snd c) = Some scale" ..
  show ?thesis
    using sc score_agrees [OF sc, of u]
    by (simp add: candidateEntries_def scoreCandidate_def Let_def candidateOf_def)
qed

lemma results_members:
  assumes "k \<in> set (concat (map (candidateEntries u) cs))" and "set cs \<subseteq> set detectKey_candidates"
  shows "candidateOf k \<in> set cs \<and> kc_score k = candidateScore u (kc_root k) (kc_scale k) \<and>
         0 < kc_score k"
proof -
  from assms obtain c where c: "c \<in> set cs" "k \<in> set (candidateEntries u c)" by auto
  with assms(2) have "c \<in> set detectKey_candidates" by blast
  from candidateEntries_cases [OF this, of u] c(2)
  have "candidateOf k = c \<and> kc_score k = candidateScore u (fst c) (snd c) \<and> 0 < kc_score k"
    by (cases "0 < candidateScore u (fst c) (snd c)") auto
  with c(1) show ?thesis by (auto simp: candidateOf_def)
qed

lemma results_complete:
  assumes "c \<in> set cs" and "set cs \<subseteq> set detectKey_candidates"
    and "0 < candidateScore u (fst c) (snd c)"
  shows "\<exists>k \<in> set (concat (map (candidateEntries u) cs)). candidateOf k = c"
proof -
  from assms have "c \<in> set detectKey_candidates" by blast
  from candidateEntries_cases [OF this, of u] assms(3)
  obtain k where "candidateEntries u c = [k]" "candidateOf k = c" by blast
  with assms(1) show ?thesis by force
qed

lemma sorted_desc:
  "sorted_wrt (\<lambda>a b. kc_score b \<le> kc_score a) (sort_key (\<lambda>r. - kc_score r) xs)"
proof -
  have "sorted (map (\<lambda>r. - kc_score r) (sort_key (\<lambda>r. - kc_score r) xs))"
    by (rule sorted_sort_key)
  then show ?thesis
    by (simp add: sorted_map)
qed

lemma take_top:
  assumes s: "sorted_wrt (\<lambda>a b. f b \<le> (f a :: rat)) ys" and z: "z \<in> set ys"
  shows "z \<in> set (take n ys) \<or> (length (take n ys) = n \<and> (\<forall>k \<in> set (take n ys). f z \<le> f k))"
proof (cases "z \<in> set (take n ys)")
  case True
  then show ?thesis by simp
next
  case False
  have ys: "ys = take n ys @ drop n ys" by simp
  with z False have zd: "z \<in> set (drop n ys)"
    by (metis Un_iff set_append)
  then have "n < length ys"
    by (cases "n < length ys") auto
  then have l: "length (take n ys) = n" by simp
  from s ys have "sorted_wrt (\<lambda>a b. f b \<le> f a) (take n ys @ drop n ys)" by simp
  then have "\<forall>k \<in> set (take n ys). \<forall>d \<in> set (drop n ys). f d \<le> f k"
    unfolding sorted_wrt_append by blast
  with zd l show ?thesis by blast
qed

lemma results_keys:
  assumes "set cs \<subseteq> set detectKey_candidates"
  shows "map candidateOf (concat (map (candidateEntries u) cs)) =
           filter (\<lambda>c. 0 < candidateScore u (fst c) (snd c)) cs"
  using assms
proof (induction cs)
  case Nil
  show ?case by simp
next
  case (Cons c cs)
  then have c: "c \<in> set detectKey_candidates" and cs: "set cs \<subseteq> set detectKey_candidates"
    by simp_all
  from candidateEntries_cases [OF c, of u] Cons.IH [OF cs] show ?case
    by (cases "0 < candidateScore u (fst c) (snd c)") auto
qed

lemma candidates_count: "length detectKey_candidates = 48 \<and> distinct detectKey_candidates"
  by (simp add: detectKey_candidates_def distinct_product NOTE_NAMES_def
      detectKey_scaleTypes_def)

lemma top_distinct:
  assumes "distinct (map candidateOf xs)"
  shows "distinct (map candidateOf (take n (sort_key (\<lambda>r. - kc_score r) xs)))"
proof -
  from assms have d: "distinct xs" and i: "inj_on candidateOf (set xs)"
    by (simp_all add: distinct_map)
  have "set (take n (sort_key (\<lambda>r. - kc_score r) xs)) \<subseteq> set xs"
    using set_take_subset [of n "sort_key (\<lambda>r. - kc_score r) xs"] by simp
  with i have "inj_on candidateOf (set (take n (sort_key (\<lambda>r. - kc_score r) xs)))"
    by (rule inj_on_subset)
  moreover from d have "distinct (take n (sort_key (\<lambda>r. - kc_score r) xs))"
    by simp
  ultimately show ?thesis by (simp add: distinct_map)
qed

text \<open>
  Claim C7. There are 48 candidates, the twelve roots crossed with major, natural minor,
  dorian and mixolydian. With fewer than two unique pitch classes \<^verbatim>\<open>detectKey\<close>
  returns the empty list. Otherwise it returns at most five entries, sorted by
  descending score, each for a different candidate; the score of an entry is matched
  notes minus twice the unmatched notes over the number of unique notes, and is
  positive; and every candidate with a positive score is either returned or scores no
  more than each of the five entries returned.
\<close>

theorem detectKey_top_candidates:
  "(let u = canonicalNotes (filter truthy (map (detectKey_noteName roundedMidi) notes))
    in length detectKey_candidates = 48 \<and>
       (length u < 2 \<longrightarrow> detectKey roundedMidi notes = Inr []) \<and>
       (2 \<le> length u \<longrightarrow>
          (\<exists>rs. detectKey roundedMidi notes = Inr rs \<and>
             length rs \<le> 5 \<and>
             sorted_wrt (\<lambda>a b. kc_score b \<le> kc_score a) rs \<and>
             distinct (map candidateOf rs) \<and>
             (\<forall>k \<in> set rs.
                candidateOf k \<in> set detectKey_candidates \<and>
                kc_score k = candidateScore u (kc_root k) (kc_scale k) \<and>
                0 < kc_score k) \<and>
             (\<forall>c \<in> set detectKey_candidates.
                0 < candidateScore u (fst c) (snd c) \<longrightarrow>
                  (\<exists>k \<in> set rs. candidateOf k = c) \<or>
                  (length rs = 5 \<and>
                   (\<forall>k \<in> set rs. candidateScore u (fst c) (snd c) \<le> kc_score k))))))"
proof -
  define u where "u = canonicalNotes (filter truthy (map (detectKey_noteName roundedMidi) notes))"
  define results where "results = concat (map (candidateEntries u) detectKey_candidates)"
  define rs where "rs = take 5 (sort_key (\<lambda>r. - kc_score r) results)"
  have scan: "scanRoots u NOTE_NAMES [] = Inr results"
    by (simp add: scanRoots_results results_def detectKey_candidates_def)
  have small: "detectKey roundedMidi notes = Inr []" if "length u < 2"
    using that by (simp add: detectKey_def Let_def u_def)
  have big: "detectKey roundedMidi notes = Inr rs" if "2 \<le> length u"
    using that scan by (simp add: detectKey_def Let_def u_def [symmetric] rs_def)
  have len: "length rs \<le> 5" by (simp add: rs_def)
  have srt: "sorted_wrt (\<lambda>a b. kc_score b \<le> kc_score a) rs"
    unfolding rs_def by (rule sorted_wrt_take) (rule sorted_desc)
  have "distinct (map candidateOf results)"
    using candidates_count by (simp add: results_def results_keys)
  then have dst: "distinct (map candidateOf rs)"
    unfolding rs_def by (rule top_distinct)
  have sub: "set rs \<subseteq> set results"
    using set_take_subset [of 5 "sort_key (\<lambda>r. - kc_score r) results"] by (simp add: rs_def)
  have mem: "candidateOf k \<in> set detectKey_candidates \<and>
      kc_score k = candidateScore u (kc_root k) (kc_scale k) \<and> 0 < kc_score k"
    if "k \<in> set rs" for k
  proof -
    from that sub have "k \<in> set (concat (map (candidateEntries u) detectKey_candidates))"
      by (auto simp: results_def)
    then show ?thesis by (rule results_members) simp
  qed
  have top: "(\<exists>k \<in> set rs. candidateOf k = c) \<or>
      (length rs = 5 \<and> (\<forall>k \<in> set rs. candidateScore u (fst c) (snd c) \<le> kc_score k))"
    if c: "c \<in> set detectKey_candidates" and pos: "0 < candidateScore u (fst c) (snd c)" for c
  proof -
    from results_complete [OF c _ pos] obtain z where
      z: "z \<in> set results" "candidateOf z = c"
      by (auto simp: results_def)
    from z(1) have "z \<in> set (concat (map (candidateEntries u) detectKey_candidates))"
      by (simp add: results_def)
    from results_members [OF this] z(2) have zs: "kc_score z = candidateScore u (fst c) (snd c)"
      by (auto simp: candidateOf_def)
    from z(1) have "z \<in> set (sort_key (\<lambda>r. - kc_score r) results)" by simp
    from take_top [OF sorted_desc this, of 5]
    have "z \<in> set rs \<or> (length rs = 5 \<and> (\<forall>k \<in> set rs. kc_score z \<le> kc_score k))"
      by (simp only: rs_def)
    with z(2) zs show ?thesis by auto
  qed
  from candidates_count small big len srt dst mem top show ?thesis
    unfolding Let_def u_def [symmetric] by blast
qed

text \<open>
  The theorem at the notes C, E and a frequency that rounds to G, where five candidates
  score 1 and C sharp major has the score \<open>-1\<close>, and at a repeated C.
\<close>

theorem detectKey_top_candidates_witness:
  "canonicalNotes (filter truthy (map (detectKey_noteName (\<lambda>f :: rat. if f = 392 then Some 67 else None))
       [NoteName ''C'', NoteObject ''E'', NoteNumber 392, NoteName ''C''])) = [''C'', ''E'', ''G''] \<and>
   (\<exists>rs. detectKey (\<lambda>f :: rat. if f = 392 then Some 67 else None)
            [NoteName ''C'', NoteObject ''E'', NoteNumber 392, NoteName ''C''] = Inr rs \<and>
      length rs \<le> 5 \<and> distinct (map candidateOf rs) \<and>
      map candidateOf rs =
        [(''C'', ''major''), (''C'', ''mixolydian''), (''D'', ''naturalMinor''), (''D'', ''dorian''),
         (''D'', ''mixolydian'')] \<and>
      map kc_score rs = [1, 1, 1, 1, 1]) \<and>
   candidateScore [''C'', ''E'', ''G''] ''C#'' ''major'' = - 1 \<and>
   canonicalNotes (filter truthy (map (detectKey_noteName (\<lambda>f :: rat. None))
       [NoteName ''C'', NoteName ''C'', NoteName ''C''])) = [''C''] \<and>
   detectKey (\<lambda>f :: rat. None) [NoteName ''C'', NoteName ''C'', NoteName ''C''] = Inr []"
proof -
  let ?rm = "\<lambda>f :: rat. if f = 392 then Some (67 :: int) else None"
  let ?notes = "[NoteName ''C'', NoteObject ''E'', NoteNumber 392, NoteName ''C'']"
  have u: "canonicalNotes (filter truthy (map (detectKey_noteName ?rm) ?notes)) = [''C'', ''E'', ''G'']"
    by code_simp
  have v: "canonicalNotes (filter truthy (map (detectKey_noteName (\<lambda>f :: rat. None))
       [NoteName ''C'', NoteName ''C'', NoteName ''C''])) = [''C'']"
    by code_simp
  have e: "(case detectKey ?rm ?notes of Inl _ \<Rightarrow> ([], []) | Inr rs \<Rightarrow> (map candidateOf rs, map kc_score rs)) =
     ([(''C'', ''major''), (''C'', ''mixolydian''), (''D'', ''naturalMinor''), (''D'', ''dorian''),
         (''D'', ''mixolydian'')], [1, 1, 1, 1, 1])"
    by code_simp
  have s: "candidateScore [''C'', ''E'', ''G''] ''C#'' ''major'' = - 1"
    by code_simp
  from detectKey_top_candidates [of ?rm ?notes] u
  obtain rs where rs: "detectKey ?rm ?notes = Inr rs" "length rs \<le> 5" "distinct (map candidateOf rs)"
    by (auto simp: Let_def)
  from detectKey_top_candidates [of "\<lambda>f :: rat. None" "[NoteName ''C'', NoteName ''C'', NoteName ''C'']"] v
  have z: "detectKey (\<lambda>f :: rat. None) [NoteName ''C'', NoteName ''C'', NoteName ''C''] = Inr []"
    by (simp add: Let_def)
  from e rs(1) have c: "map candidateOf rs =
        [(''C'', ''major''), (''C'', ''mixolydian''), (''D'', ''naturalMinor''), (''D'', ''dorian''),
         (''D'', ''mixolydian'')] \<and> map kc_score rs = [1, 1, 1, 1, 1]"
    by simp
  have x: "\<exists>rs. detectKey ?rm ?notes = Inr rs \<and>
      length rs \<le> 5 \<and> distinct (map candidateOf rs) \<and>
      map candidateOf rs =
        [(''C'', ''major''), (''C'', ''mixolydian''), (''D'', ''naturalMinor''), (''D'', ''dorian''),
         (''D'', ''mixolydian'')] \<and>
      map kc_score rs = [1, 1, 1, 1, 1]"
    by (rule exI [of _ rs]) (intro conjI rs c [THEN conjunct1] c [THEN conjunct2])
  show ?thesis
    by (intro conjI u x s v z)
qed

section \<open>The effect of the chord analyzer on its argument\<close>

lemma array_at_update_append:
  "a < length h \<Longrightarrow> array_at (h[a := v] @ [w]) a = Some v"
  "array_at (h[a := v] @ [w]) (length h) = Some w"
  "b \<noteq> a \<Longrightarrow> b < length h \<Longrightarrow> array_at (h[a := v] @ [w]) b = array_at h b"
  by (simp_all add: array_at_def nth_append)

text \<open>
  Claim C10. \<^verbatim>\<open>ChordAnalyzer.identify\<close> changes the array it is given. Called on an
  array of two or more notes, it leaves that array sorted by ascending frequency at
  the same address, returns a reference to a newly allocated result object, which is
  at an address the store did not have before, and changes nothing else. Called on a
  shorter array it returns \<^verbatim>\<open>null\<close> and leaves the store as it was.
\<close>

theorem identify_sorts_in_place:
  "(array_at h a = Some (NoteArray elems) \<and> length elems < 2 \<longrightarrow>
      identify roundedSemitones toFixed2 h a = Inr (Null, h)) \<and>
   (array_at h a = Some (NoteArray elems) \<and> 2 \<le> length elems \<longrightarrow>
      (\<exists>result h'.
         identify roundedSemitones toFixed2 h a = Inr (Ref (length h), h') \<and>
         length h' = Suc (length h) \<and>
         array_at h' a = Some (NoteArray (sort_key nt_freq elems)) \<and>
         sorted (map nt_freq (sort_key nt_freq elems)) \<and>
         array_at h' (length h) = Some (Analysis result) \<and>
         array_at h (length h) = None \<and>
         (\<forall>b. b \<noteq> a \<and> b < length h \<longrightarrow> array_at h' b = array_at h b)))"
proof (intro conjI impI)
  assume "array_at h a = Some (NoteArray elems) \<and> length elems < 2"
  then show "identify roundedSemitones toFixed2 h a = Inr (Null, h)"
    by (simp add: identify_def)
next
  assume p: "array_at h a = Some (NoteArray elems) \<and> 2 \<le> length elems"
  then have a: "a < length h"
    by (auto simp: array_at_def split: if_splits)
  from p have "length (sort_key nt_freq elems) \<noteq> 0" by auto
  then obtain rootN rest where s: "sort_key nt_freq elems = rootN # rest"
    by (cases "sort_key nt_freq elems") auto
  from p s obtain result where
    "identify roundedSemitones toFixed2 h a =
       Inr (Ref (length h), h[a := NoteArray (sort_key nt_freq elems)] @ [Analysis result])"
    by (simp add: identify_def Let_def)
  then show "\<exists>result h'.
         identify roundedSemitones toFixed2 h a = Inr (Ref (length h), h') \<and>
         length h' = Suc (length h) \<and>
         array_at h' a = Some (NoteArray (sort_key nt_freq elems)) \<and>
         sorted (map nt_freq (sort_key nt_freq elems)) \<and>
         array_at h' (length h) = Some (Analysis result) \<and>
         array_at h (length h) = None \<and>
         (\<forall>b. b \<noteq> a \<and> b < length h \<longrightarrow> array_at h' b = array_at h b)"
    using a by (auto simp: array_at_update_append) (simp add: array_at_def)
qed

text \<open>
  The theorem at an array holding E at 660 Hz before A at 440 Hz, which the call
  reorders, and at an array of one note.
\<close>

theorem identify_sorts_in_place_witness:
  "array_at [NoteArray [\<lparr>nt_freq = 660, nt_note = ''E''\<rparr>, \<lparr>nt_freq = 440, nt_note = ''A''\<rparr>]] 0
     = Some (NoteArray [\<lparr>nt_freq = 660, nt_note = ''E''\<rparr>, \<lparr>nt_freq = 440, nt_note = ''A''\<rparr>]) \<and>
   (\<exists>result h'.
      identify (\<lambda>f r. if f = 660 then 7 else 0) (\<lambda>f r. if f = 660 then ''1.50'' else ''1.00'')
        [NoteArray [\<lparr>nt_freq = 660, nt_note = ''E''\<rparr>, \<lparr>nt_freq = 440, nt_note = ''A''\<rparr>]] 0
        = Inr (Ref 1, h') \<and>
      array_at h' 0
        = Some (NoteArray [\<lparr>nt_freq = 440, nt_note = ''A''\<rparr>, \<lparr>nt_freq = 660, nt_note = ''E''\<rparr>]) \<and>
      array_at h' 1 = Some (Analysis result)) \<and>
   identify (\<lambda>f r. 0) (\<lambda>f r. ''1.00'') [NoteArray [\<lparr>nt_freq = 440, nt_note = ''A''\<rparr>]] 0
     = Inr (Null, [NoteArray [\<lparr>nt_freq = 440, nt_note = ''A''\<rparr>]])"
proof -
  let ?xs = "[\<lparr>nt_freq = 660, nt_note = ''E''\<rparr>, \<lparr>nt_freq = 440, nt_note = ''A''\<rparr>]"
  let ?rs = "\<lambda>f r :: rat. if f = 660 then 7 :: int else 0"
  let ?tf = "\<lambda>f r :: rat. if f = 660 then ''1.50'' else ''1.00''"
  have h: "array_at [NoteArray ?xs] 0 = Some (NoteArray ?xs)"
    by (simp add: array_at_def)
  have srt: "sort_key nt_freq ?xs = [\<lparr>nt_freq = 440, nt_note = ''A''\<rparr>, \<lparr>nt_freq = 660, nt_note = ''E''\<rparr>]"
    by simp
  from identify_sorts_in_place [of "[NoteArray ?xs]" 0 ?xs ?rs ?tf] h
  obtain result h' where r: "identify ?rs ?tf [NoteArray ?xs] 0 = Inr (Ref (length [NoteArray ?xs]), h')"
    "array_at h' 0 = Some (NoteArray (sort_key nt_freq ?xs))"
    "array_at h' (length [NoteArray ?xs]) = Some (Analysis result)"
    by auto
  have x: "\<exists>result h'. identify ?rs ?tf [NoteArray ?xs] 0 = Inr (Ref 1, h') \<and>
      array_at h' 0 = Some (NoteArray [\<lparr>nt_freq = 440, nt_note = ''A''\<rparr>, \<lparr>nt_freq = 660, nt_note = ''E''\<rparr>]) \<and>
      array_at h' 1 = Some (Analysis result)"
    using r srt by (intro exI [of _ result] exI [of _ h']) simp
  have k: "array_at [NoteArray [\<lparr>nt_freq = 440, nt_note = ''A''\<rparr>]] 0 = Some (NoteArray [\<lparr>nt_freq = 440, nt_note = ''A''\<rparr>])"
    by (simp add: array_at_def)
  from identify_sorts_in_place [of "[NoteArray [\<lparr>nt_freq = 440, nt_note = ''A''\<rparr>]]" 0
      "[\<lparr>nt_freq = 440, nt_note = ''A''\<rparr>]" "\<lambda>f r. 0" "\<lambda>f r. ''1.00''"] k
  have y: "identify (\<lambda>f r. 0) (\<lambda>f r. ''1.00'') [NoteArray [\<lparr>nt_freq = 440, nt_note = ''A''\<rparr>]] 0
     = Inr (Null, [NoteArray [\<lparr>nt_freq = 440, nt_note = ''A''\<rparr>]])"
    by simp
  show ?thesis by (intro conjI h x y)
qed

end
